theory Spec2Isabelle
  imports Main
begin

section \<open>Python values\<close>

text \<open>
  The values that \<^verbatim>\<open>json.loads\<close> hands to \<^verbatim>\<open>generate_mcqs\<close> and that the render loop
  of \<^verbatim>\<open>app.py\<close> inspects at run time.  A float is kept as sign, mantissa and binary
  exponent, or as one of the non-finite floats.  A \<^verbatim>\<open>str\<close> is a list of characters, one
  \<open>char\<close> per character of the text.  A \<^verbatim>\<open>dict\<close> is the list of its items in iteration
  order; a dict built by Python has no key twice.
\<close>

datatype pyfloat = Finite bool nat int | Infinite bool | NaN

datatype pyval =
    PyNone
  | PyBool bool
  | PyInt int
  | PyFloat pyfloat
  | PyStr string
  | PyList "pyval list"
  | PyDict "(string \<times> pyval) list"

text \<open>The exceptions the code raises or catches; the string is the exception's argument.\<close>

datatype exn =
    JSONDecodeError string
  | KeyError string
  | TypeError
  | AttributeError string
  | UnboundLocalError string
  | RecursionError string
  | OtherException string

text \<open>\<^verbatim>\<open>isinstance(v, list)\<close> and \<^verbatim>\<open>isinstance(v, dict)\<close>.\<close>

fun isinstance_list :: "pyval \<Rightarrow> bool" where
  "isinstance_list (PyList xs) = True"
| "isinstance_list v = False"

fun isinstance_dict :: "pyval \<Rightarrow> bool" where
  "isinstance_dict (PyDict kvs) = True"
| "isinstance_dict v = False"

text \<open>\<^verbatim>\<open>d.items()\<close> of a dict.\<close>

fun items :: "pyval \<Rightarrow> (string \<times> pyval) list" where
  "items (PyDict kvs) = kvs"
| "items v = []"

text \<open>Truth value of a Python object, as \<^verbatim>\<open>not x\<close> tests it.\<close>

fun py_bool :: "pyval \<Rightarrow> bool" where
  "py_bool PyNone = False"
| "py_bool (PyBool b) = b"
| "py_bool (PyInt n) = (n \<noteq> 0)"
| "py_bool (PyFloat (Finite s m e)) = (m \<noteq> 0)"
| "py_bool (PyFloat f) = True"
| "py_bool (PyStr s) = (s \<noteq> [])"
| "py_bool (PyList xs) = (xs \<noteq> [])"
| "py_bool (PyDict kvs) = (kvs \<noteq> [])"

text \<open>\<^verbatim>\<open>mcq[key]\<close> with a string key: only a dict can be subscripted by a string.\<close>

fun py_getitem :: "pyval \<Rightarrow> string \<Rightarrow> exn + pyval" where
  "py_getitem (PyDict kvs) key =
     (case map_of kvs key of None \<Rightarrow> Inl (KeyError key) | Some v \<Rightarrow> Inr v)"
| "py_getitem v key = Inl TypeError"

text \<open>\<^verbatim>\<open>mcq.get(key, default)\<close>: a method of dicts only.\<close>

fun py_get :: "pyval \<Rightarrow> string \<Rightarrow> pyval \<Rightarrow> exn + pyval" where
  "py_get (PyDict kvs) key dflt =
     (case map_of kvs key of None \<Rightarrow> Inr dflt | Some v \<Rightarrow> Inr v)"
| "py_get v key dflt = Inl (AttributeError ''get'')"

text \<open>\<^verbatim>\<open>len(v)\<close>: defined on lists, strings and dicts.\<close>

fun py_len :: "pyval \<Rightarrow> exn + nat" where
  "py_len (PyList xs) = Inr (length xs)"
| "py_len (PyStr s) = Inr (length s)"
| "py_len (PyDict kvs) = Inr (length kvs)"
| "py_len v = Inl TypeError"

text \<open>Iterating over a value, as \<^verbatim>\<open>enumerate\<close> does.\<close>

fun py_iter :: "pyval \<Rightarrow> exn + pyval list" where
  "py_iter (PyList xs) = Inr xs"
| "py_iter (PyStr s) = Inr (map (\<lambda>c. PyStr [c]) s)"
| "py_iter (PyDict kvs) = Inr (map (\<lambda>kv. PyStr (fst kv)) kvs)"
| "py_iter v = Inl TypeError"

section \<open>Streamlit output\<close>

text \<open>
  An f-string is kept as its parts: the literal text and the values that are formatted
  into it.  The calls on \<^verbatim>\<open>st\<close> are recorded in the order in which they are made, with
  their arguments; each of them returns normally.
\<close>

datatype fpart = Lit string | Fmt pyval | FmtExn exn

type_synonym fstring = "fpart list"

datatype st_call =
    St_error fstring
  | St_warning fstring
  | St_info fstring
  | St_subheader string
  | St_write fstring
  | St_radio string pyval fstring string bool
  | St_expander string
  | St_success fstring
  | St_divider

section \<open>generate\_mcqs\<close>

text \<open>
  What \<^verbatim>\<open>generate_mcqs\<close> calls outside of \<^verbatim>\<open>app.py\<close>:
  \<^item> \<open>configure\<close>: \<^verbatim>\<open>genai.configure(api_key=...)\<close>, with the exception it raises, if any;
  \<^item> \<open>generative_model\<close>: the constructor \<^verbatim>\<open>genai.GenerativeModel(...)\<close> of line 53, with
    the exception it raises, if any;
  \<^item> \<open>response_text\<close>: \<^verbatim>\<open>model.generate_content(full_prompt)\<close> followed by
    \<^verbatim>\<open>response.text\<close>, for the prompt built from \<^verbatim>\<open>context\<close> and \<^verbatim>\<open>num_questions\<close>
    (lines 58 to 82): the text of the response, or the exception raised;
  \<^item> \<open>loads\<close>: \<^verbatim>\<open>json.loads\<close>: the decoded value, or the exception raised.
\<close>

record env =
  configure :: "string \<Rightarrow> exn option"
  generative_model :: "exn option"
  response_text :: "string \<Rightarrow> int \<Rightarrow> exn + string"
  loads :: "string \<Rightarrow> exn + pyval"

text \<open>The message of lines 100 and 104.\<close>

definition unexpected_shape_error :: st_call where
  "unexpected_shape_error =
     St_error [Lit ''The API returned JSON, but not in the expected array format. Please try again.'']"

text \<open>
  The \<^verbatim>\<open>for ... else\<close> of lines 95 to 101: the value at which the loop breaks, or
  \<open>None\<close> when the loop runs to its end and the \<^verbatim>\<open>else\<close> branch is taken.
\<close>

fun find_list :: "(string \<times> pyval) list \<Rightarrow> pyval option" where
  "find_list [] = None"
| "find_list ((key, v) # rest) = (if isinstance_list v then Some v else find_list rest)"

text \<open>
  Lines 84 to 114, from the point where \<^verbatim>\<open>json_string\<close> is bound: the calls made on
  \<^verbatim>\<open>st\<close> and the value returned.
\<close>

definition normalize_response :: "(string \<Rightarrow> exn + pyval) \<Rightarrow> string \<Rightarrow> st_call list \<times> pyval" where
  "normalize_response json_loads json_string =
     (if json_string = [] then
        ([St_error [Lit ''API returned a successful but empty response.'']], PyNone)
      else
        case json_loads json_string of
          Inl (JSONDecodeError m) \<Rightarrow>
            ([St_error [Lit ''Failed to decode the API's JSON response. The model might not be following the schema. Response text: '',
                        Fmt (PyStr json_string)]], PyNone)
        | Inl e \<Rightarrow>
            ([St_error [Lit ''An unexpected error occurred while calling the Gemini API: '', FmtExn e]],
             PyNone)
        | Inr mcq_data \<Rightarrow>
            (case (if isinstance_dict mcq_data then find_list (items mcq_data) else Some mcq_data) of
               None \<Rightarrow> ([unexpected_shape_error], PyNone)
             | Some mcq_data' \<Rightarrow>
                 if \<not> isinstance_list mcq_data' then ([unexpected_shape_error], PyNone)
                 else ([], mcq_data')))"

text \<open>
  The whole function: the calls made on \<^verbatim>\<open>st\<close>, and the value returned (\<open>Inr\<close>) or the
  exception that leaves the function (\<open>Inl\<close>).  The constructor of line 53 is outside
  every \<^verbatim>\<open>try\<close>.  The handler of line 110 formats \<^verbatim>\<open>json_string\<close>, which is unbound
  when the exception comes from the API call itself.
\<close>

definition generate_mcqs :: "env \<Rightarrow> string \<Rightarrow> int \<Rightarrow> string \<Rightarrow> st_call list \<times> (exn + pyval)" where
  "generate_mcqs ev context num_questions api_key =
     (case configure ev api_key of
        Some e \<Rightarrow> ([St_error [Lit ''Failed to configure Gemini client: '', FmtExn e]], Inr PyNone)
      | None \<Rightarrow>
          (case generative_model ev of
             Some e \<Rightarrow> ([], Inl e)
           | None \<Rightarrow>
               (case response_text ev context num_questions of
                  Inl (JSONDecodeError m) \<Rightarrow> ([], Inl (UnboundLocalError ''json_string''))
                | Inl e \<Rightarrow>
                    ([St_error [Lit ''An unexpected error occurred while calling the Gemini API: '',
                                FmtExn e]],
                     Inr PyNone)
                | Inr json_string \<Rightarrow>
                    (case normalize_response (loads ev) json_string of
                       (out, r) \<Rightarrow> (out, Inr r)))))"

section \<open>The render loop\<close>

text \<open>
  The body of the \<^verbatim>\<open>try\<close> of lines 171 to 193 for the record \<open>mcq\<close> at index \<open>i\<close>: the
  calls made on \<^verbatim>\<open>st\<close>, and the exception that ends the body, if any.  The f-string of
  line 171 is evaluated before \<^verbatim>\<open>st.write\<close> is called; the \<^verbatim>\<open>continue\<close> of line 178
  ends the body without an exception.
\<close>

definition render_body :: "nat \<Rightarrow> pyval \<Rightarrow> st_call list \<times> exn option" where
  "render_body i mcq =
     (case py_getitem mcq ''question'' of
        Inl e \<Rightarrow> ([], Some e)
      | Inr question \<Rightarrow>
          (let title = St_write [Lit ''**Q'', Fmt (PyInt (int i + 1)), Lit '': '', Fmt question, Lit ''**'']
           in case py_get mcq ''options'' (PyList []) of
                Inl e \<Rightarrow> ([title], Some e)
              | Inr options_list \<Rightarrow>
                  (case py_len options_list of
                     Inl e \<Rightarrow> ([title], Some e)
                   | Inr n \<Rightarrow>
                       if n \<noteq> 4 then
                         ([title,
                           St_warning [Lit ''Q'', Fmt (PyInt (int i + 1)),
                                       Lit '' did not return 4 options. Skipping.'']], None)
                       else
                         (let radio = St_radio ''Options'' options_list
                                        [Lit ''mcq_'', Fmt (PyInt (int i))] ''collapsed'' True;
                              expander = St_expander ''Show Answer''
                          in case py_getitem mcq ''answer'' of
                               Inl e \<Rightarrow> ([title, radio, expander], Some e)
                             | Inr answer \<Rightarrow>
                                 ([title, radio, expander,
                                   St_success [Lit ''Correct Answer: '', Fmt answer],
                                   St_divider], None)))))"

text \<open>One iteration of the loop: the body with the handlers of lines 195 to 198.\<close>

definition render_mcq :: "nat \<Rightarrow> pyval \<Rightarrow> st_call list" where
  "render_mcq i mcq =
     (case render_body i mcq of
        (out, None) \<Rightarrow> out
      | (out, Some (KeyError key)) \<Rightarrow>
          out @ [St_error [Lit ''Error displaying MCQ '', Fmt (PyInt (int i + 1)),
                           Lit '': Missing expected key '', FmtExn (KeyError key),
                           Lit ''. Data: '', Fmt mcq]]
      | (out, Some e) \<Rightarrow>
          out @ [St_error [Lit ''An unknown error occurred while displaying MCQ '',
                           Fmt (PyInt (int i + 1)), Lit '': '', FmtExn e]])"

text \<open>The loop of line 169 over the records from index \<open>i\<close> on.\<close>

fun render_loop :: "nat \<Rightarrow> pyval list \<Rightarrow> st_call list" where
  "render_loop i [] = []"
| "render_loop i (mcq # rest) = render_mcq i mcq @ render_loop (Suc i) rest"

text \<open>
  The right column, lines 162 to 198.  The argument is the entry \<^verbatim>\<open>mcq_list\<close> of the
  session state, \<open>None\<close> when the key is not in it.  An exception of \<^verbatim>\<open>enumerate\<close> is
  outside every \<^verbatim>\<open>try\<close>.
\<close>

definition col2 :: "pyval option \<Rightarrow> st_call list \<times> exn option" where
  "col2 mcq_list =
     (let idle = [St_subheader ''Generated MCQs'',
                  St_info [Lit ''Click the 'Generate MCQs' button to see your questions here.'']]
      in case mcq_list of
           None \<Rightarrow> (idle, None)
         | Some v \<Rightarrow>
             if \<not> py_bool v then (idle, None)
             else (case py_iter v of
                     Inl e \<Rightarrow> ([St_subheader ''Generated MCQs''], Some e)
                   | Inr records \<Rightarrow> (St_subheader ''Generated MCQs'' # render_loop 0 records, None)))"

text \<open>The test of line 176 on a record: \<^verbatim>\<open>len(mcq.get('options', []))\<close> is 4.\<close>

definition four_options :: "pyval \<Rightarrow> bool" where
  "four_options mcq =
     (case py_get mcq ''options'' (PyList []) of
        Inl e \<Rightarrow> False
      | Inr options_list \<Rightarrow> py_len options_list = Inr 4)"

text \<open>
  \<^verbatim>\<open>mcq[key]\<close> raises: the record is a dict without the key, or it is not a dict.
\<close>

definition missing_key :: "pyval \<Rightarrow> string \<Rightarrow> bool" where
  "missing_key mcq key = (case py_getitem mcq key of Inl e \<Rightarrow> True | Inr v \<Rightarrow> False)"

text \<open>
  The record reaches the warning of line 177: its question is read, and
  \<^verbatim>\<open>len(mcq.get('options', []))\<close> is a number other than 4.
\<close>

definition option_count_warned :: "pyval \<Rightarrow> bool" where
  "option_count_warned mcq =
     (case py_getitem mcq ''question'' of
        Inl e \<Rightarrow> False
      | Inr question \<Rightarrow>
          (case py_get mcq ''options'' (PyList []) of
             Inl e \<Rightarrow> False
           | Inr options_list \<Rightarrow>
               (case py_len options_list of
                  Inl e \<Rightarrow> False
                | Inr n \<Rightarrow> n \<noteq> 4)))"

text \<open>The calls that report a problem to the user.\<close>

fun is_report :: "st_call \<Rightarrow> bool" where
  "is_report (St_error msg) = True"
| "is_report (St_warning msg) = True"
| "is_report c = False"

section \<open>Sample inputs\<close>

text \<open>
  A decoder for running the definitions on concrete response texts: it knows the
  documents below, with the values \<^verbatim>\<open>json.loads\<close> gives for them, raises
  \<^verbatim>\<open>RecursionError\<close> on the text of a thousand opening brackets, and rejects every other
  text.
\<close>

definition sample_mcq :: pyval where
  "sample_mcq =
     PyDict [(''question'', PyStr ''Q1''),
             (''options'', PyList [PyStr ''A'', PyStr ''B'', PyStr ''C'', PyStr ''D'']),
             (''answer'', PyStr ''B'')]"

text \<open>Records that the render loop does not show in full.\<close>

definition three_options_mcq :: pyval where
  "three_options_mcq =
     PyDict [(''question'', PyStr ''Q2''),
             (''options'', PyList [PyStr ''A'', PyStr ''B'', PyStr ''C'']),
             (''answer'', PyStr ''A'')]"

definition no_question_mcq :: pyval where
  "no_question_mcq =
     PyDict [(''options'', PyList [PyStr ''A'', PyStr ''B'', PyStr ''C'', PyStr ''D'']),
             (''answer'', PyStr ''D'')]"

definition no_answer_mcq :: pyval where
  "no_answer_mcq =
     PyDict [(''question'', PyStr ''Q3''),
             (''options'', PyList [PyStr ''A'', PyStr ''B'', PyStr ''C'', PyStr ''D''])]"

definition no_answer_three_options_mcq :: pyval where
  "no_answer_three_options_mcq =
     PyDict [(''question'', PyStr ''Q4''),
             (''options'', PyList [PyStr ''A'', PyStr ''B'', PyStr ''C''])]"

definition null_options_mcq :: pyval where
  "null_options_mcq = PyDict [(''question'', PyStr ''Q5''), (''options'', PyNone)]"

definition text_deep :: string where
  "text_deep = replicate 1000 (CHR ''['')"

definition text_array :: string where
  \<open>text_array = ''[{"question":"Q1","options":["A","B","C","D"],"answer":"B"}]''\<close>

definition text_wrapped :: string where
  \<open>text_wrapped = ''{"questions":[{"question":"Q1","options":["A","B","C","D"],"answer":"B"}]}''\<close>

definition text_wrapped_empty :: string where
  \<open>text_wrapped_empty = ''{"questions":[]}''\<close>

definition text_second_field :: string where
  \<open>text_second_field = ''{"count":1,"items":[7,"x"],"more":[]}''\<close>

definition text_no_list :: string where
  \<open>text_no_list = ''{"error":"quota"}''\<close>

definition sample_documents :: "(string \<times> pyval) list" where
  "sample_documents =
     [(''[]'', PyList []),
      (text_array, PyList [sample_mcq]),
      (text_wrapped, PyDict [(''questions'', PyList [sample_mcq])]),
      (text_wrapped_empty, PyDict [(''questions'', PyList [])]),
      (text_second_field,
         PyDict [(''count'', PyInt 1), (''items'', PyList [PyInt 7, PyStr ''x'']),
                 (''more'', PyList [])]),
      (''{}'', PyDict []),
      (text_no_list, PyDict [(''error'', PyStr ''quota'')]),
      (''42'', PyInt 42)]"

definition sample_loads :: "string \<Rightarrow> exn + pyval" where
  "sample_loads s =
     (if s = text_deep then
        Inl (RecursionError
               ''maximum recursion depth exceeded while decoding a JSON array from a unicode string'')
      else
        case map_of sample_documents s of
          None \<Rightarrow> Inl (JSONDecodeError ''Expecting value'')
        | Some v \<Rightarrow> Inr v)"

definition sample_env :: "string \<Rightarrow> env" where
  "sample_env text =
     \<lparr>configure = (\<lambda>api_key. None),
      generative_model = None,
      response_text = (\<lambda>context num_questions. Inr text),
      loads = sample_loads\<rparr>"

section \<open>Facts about the definitions\<close>

lemma isinstance_list_iff: "isinstance_list v \<longleftrightarrow> (\<exists>xs. v = PyList xs)"
  by (cases v) auto

lemma find_list_None_iff:
  "find_list kvs = None \<longleftrightarrow> (\<forall>kv \<in> set kvs. \<not> isinstance_list (snd kv))"
  by (induction kvs rule: find_list.induct) auto

lemma find_list_first:
  "\<forall>kv \<in> set pre. \<not> isinstance_list (snd kv) \<Longrightarrow> isinstance_list v \<Longrightarrow>
     find_list (pre @ (key, v) # post) = Some v"
  by (induction pre rule: find_list.induct) auto

lemma find_list_Some_is_list: "find_list kvs = Some v \<Longrightarrow> isinstance_list v"
  by (induction kvs rule: find_list.induct) (auto split: if_splits)

lemma find_list_Some_ex:
  "find_list kvs = Some v \<Longrightarrow> \<exists>kv \<in> set kvs. isinstance_list (snd kv)"
  using find_list_None_iff [of kvs] by auto

text \<open>Once the text is decoded, only the shape of the value decides the outcome.\<close>

lemma normalize_response_decoded:
  "json_string \<noteq> [] \<Longrightarrow> json_loads json_string = Inr mcq_data \<Longrightarrow>
     normalize_response json_loads json_string =
       (if isinstance_list mcq_data then ([], mcq_data)
        else case find_list (items mcq_data) of
               None \<Rightarrow> ([unexpected_shape_error], PyNone)
             | Some v \<Rightarrow> ([], v))"
  by (cases mcq_data)
     (auto simp: normalize_response_def find_list_Some_is_list split: option.splits)

lemma normalize_response_None:
  assumes "snd (normalize_response json_loads json_string) = PyNone"
  shows "\<exists>msg. fst (normalize_response json_loads json_string) = [St_error msg]"
proof (cases "json_string = []")
  case True
  then show ?thesis by (simp add: normalize_response_def)
next
  case ne: False
  show ?thesis
  proof (cases "json_loads json_string")
    case (Inl e)
    with ne show ?thesis by (cases e) (simp_all add: normalize_response_def)
  next
    case (Inr v)
    with ne assms show ?thesis
      by (auto simp: normalize_response_decoded unexpected_shape_error_def
               dest: find_list_Some_is_list split: if_splits option.splits)
  qed
qed

lemma normalize_response_list:
  "snd (normalize_response json_loads json_string) = PyNone
   \<or> isinstance_list (snd (normalize_response json_loads json_string))"
proof (cases "json_string = []")
  case True
  then show ?thesis by (simp add: normalize_response_def)
next
  case ne: False
  show ?thesis
  proof (cases "json_loads json_string")
    case (Inl e)
    with ne show ?thesis by (cases e) (simp_all add: normalize_response_def)
  next
    case (Inr v)
    with ne show ?thesis
      by (auto simp: normalize_response_decoded dest: find_list_Some_is_list
               split: option.splits)
  qed
qed

lemma generate_mcqs_decoded:
  "configure ev api_key = None \<Longrightarrow> generative_model ev = None \<Longrightarrow>
   response_text ev context num_questions = Inr json_string \<Longrightarrow>
     generate_mcqs ev context num_questions api_key =
       (fst (normalize_response (loads ev) json_string),
        Inr (snd (normalize_response (loads ev) json_string)))"
  by (simp add: generate_mcqs_def split: prod.splits)

text \<open>The loop handles the records one by one, each with its index in the batch.\<close>

lemma render_loop_append:
  "render_loop i (pre @ post) = render_loop i pre @ render_loop (i + length pre) post"
  by (induction pre arbitrary: i) auto

lemma render_loop_split:
  "render_loop i (pre @ mcq # post) =
     render_loop i pre @ render_mcq (i + length pre) mcq @ render_loop (Suc (i + length pre)) post"
  by (simp add: render_loop_append)

lemma render_loop_concat:
  "render_loop i batch = concat (map (\<lambda>(j, mcq). render_mcq j mcq) (enumerate i batch))"
  by (induction batch arbitrary: i) auto

lemma render_mcq_no_question:
  "py_getitem mcq ''question'' = Inl e \<Longrightarrow> \<exists>msg. render_mcq i mcq = [St_error msg]"
  by (cases e) (simp_all add: render_mcq_def render_body_def)

lemma render_mcq_not_four:
  assumes "\<not> four_options mcq"
  shows "\<exists>rep. is_report rep \<and>
           (render_mcq i mcq = [rep] \<or> (\<exists>title. render_mcq i mcq = [St_write title, rep]))"
proof (cases "py_getitem mcq ''question''")
  case (Inl e)
  from render_mcq_no_question [OF this] obtain msg where "render_mcq i mcq = [St_error msg]" ..
  then show ?thesis by (intro exI [of _ "St_error msg"]) simp
next
  case q: (Inr question)
  show ?thesis
  proof (cases "py_get mcq ''options'' (PyList [])")
    case (Inl e)
    with q show ?thesis
      by (cases e) (simp_all add: render_mcq_def render_body_def)
  next
    case opts: (Inr options_list)
    show ?thesis
    proof (cases "py_len options_list")
      case (Inl e)
      with q opts show ?thesis
        by (cases e) (simp_all add: render_mcq_def render_body_def)
    next
      case (Inr n)
      with assms opts have "n \<noteq> 4" by (simp add: four_options_def)
      with q opts Inr show ?thesis
        by (simp add: render_mcq_def render_body_def)
    qed
  qed
qed

lemma render_mcq_warning:
  assumes "py_getitem mcq ''question'' = Inr question"
    and "py_get mcq ''options'' (PyList []) = Inr options_list"
    and "py_len options_list = Inr n" and "n \<noteq> 4"
  shows "render_mcq i mcq =
           [St_write [Lit ''**Q'', Fmt (PyInt (int i + 1)), Lit '': '', Fmt question, Lit ''**''],
            St_warning [Lit ''Q'', Fmt (PyInt (int i + 1)),
                        Lit '' did not return 4 options. Skipping.'']]"
  using assms by (simp add: render_mcq_def render_body_def)

lemma render_mcq_full:
  assumes "py_getitem mcq ''question'' = Inr question"
    and "py_get mcq ''options'' (PyList []) = Inr options_list"
    and "py_len options_list = Inr 4"
    and "py_getitem mcq ''answer'' = Inr answer"
  shows "render_mcq i mcq =
           [St_write [Lit ''**Q'', Fmt (PyInt (int i + 1)), Lit '': '', Fmt question, Lit ''**''],
            St_radio ''Options'' options_list [Lit ''mcq_'', Fmt (PyInt (int i))] ''collapsed'' True,
            St_expander ''Show Answer'',
            St_success [Lit ''Correct Answer: '', Fmt answer],
            St_divider]"
  using assms by (simp add: render_mcq_def render_body_def)

lemma render_mcq_no_answer:
  assumes "py_getitem mcq ''question'' = Inr question"
    and "py_get mcq ''options'' (PyList []) = Inr options_list"
    and "py_len options_list = Inr 4"
    and "py_getitem mcq ''answer'' = Inl (KeyError key)"
  shows "render_mcq i mcq =
           [St_write [Lit ''**Q'', Fmt (PyInt (int i + 1)), Lit '': '', Fmt question, Lit ''**''],
            St_radio ''Options'' options_list [Lit ''mcq_'', Fmt (PyInt (int i))] ''collapsed'' True,
            St_expander ''Show Answer'',
            St_error [Lit ''Error displaying MCQ '', Fmt (PyInt (int i + 1)),
                      Lit '': Missing expected key '', FmtExn (KeyError key),
                      Lit ''. Data: '', Fmt mcq]]"
  using assms by (simp add: render_mcq_def render_body_def)

lemma render_mcq_unreadable:
  assumes "py_getitem mcq ''question'' = Inr question"
    and "py_get mcq ''options'' (PyList []) = Inr options_list"
    and "py_len options_list = Inl e"
  shows "\<exists>title msg. render_mcq i mcq = [St_write title] @ [St_error msg]"
  using assms by (cases e) (simp_all add: render_mcq_def render_body_def)

lemma render_mcq_no_answer_report:
  assumes "py_getitem mcq ''question'' = Inr question"
    and "py_get mcq ''options'' (PyList []) = Inr options_list"
    and "py_len options_list = Inr 4"
    and "py_getitem mcq ''answer'' = Inl e"
  shows "\<exists>title key msg.
           render_mcq i mcq =
             [St_write title, St_radio ''Options'' options_list key ''collapsed'' True,
              St_expander ''Show Answer'']
             @ [St_error msg]"
  using assms by (cases e) (simp_all add: render_mcq_def render_body_def)

lemma py_get_defined:
  "py_getitem mcq key = Inr v \<Longrightarrow> \<exists>options_list. py_get mcq key' dflt = Inr options_list"
  by (cases mcq) (auto split: option.splits)

lemma col2_batch:
  "batch \<noteq> [] \<Longrightarrow>
     col2 (Some (PyList batch)) = (St_subheader ''Generated MCQs'' # render_loop 0 batch, None)"
  by (simp add: col2_def)

lemma py_getitem_missing:
  "key \<notin> fst ` set kvs \<Longrightarrow> py_getitem (PyDict kvs) key = Inl (KeyError key)"
  by (simp add: map_of_eq_None_iff [symmetric])

text \<open>The sample decoder on the sample texts.\<close>

lemma sample_texts_nonempty:
  "text_array \<noteq> []" "text_wrapped \<noteq> []" "text_wrapped_empty \<noteq> []"
  "text_second_field \<noteq> []" "text_no_list \<noteq> []" "text_deep \<noteq> []"
  by (simp_all add: text_array_def text_wrapped_def text_wrapped_empty_def
        text_second_field_def text_no_list_def text_deep_def)

lemma text_deep_other: "length s < 1000 \<Longrightarrow> s \<noteq> text_deep"
  by (auto simp: text_deep_def)

lemma sample_texts_not_deep:
  "''[]'' \<noteq> text_deep" "text_array \<noteq> text_deep" "text_wrapped \<noteq> text_deep"
  "text_wrapped_empty \<noteq> text_deep" "text_second_field \<noteq> text_deep"
  "text_no_list \<noteq> text_deep" "''42'' \<noteq> text_deep" "''not json'' \<noteq> text_deep"
  by (rule text_deep_other,
      simp add: text_array_def text_wrapped_def text_wrapped_empty_def
        text_second_field_def text_no_list_def)+

lemma sample_loads_simps:
  "sample_loads ''[]'' = Inr (PyList [])"
  "sample_loads text_array = Inr (PyList [sample_mcq])"
  "sample_loads text_wrapped = Inr (PyDict [(''questions'', PyList [sample_mcq])])"
  "sample_loads text_wrapped_empty = Inr (PyDict [(''questions'', PyList [])])"
  "sample_loads text_second_field =
     Inr (PyDict [(''count'', PyInt 1), (''items'', PyList [PyInt 7, PyStr ''x'']),
                  (''more'', PyList [])])"
  "sample_loads text_no_list = Inr (PyDict [(''error'', PyStr ''quota'')])"
  "sample_loads ''42'' = Inr (PyInt 42)"
  "sample_loads ''not json'' = Inl (JSONDecodeError ''Expecting value'')"
  by (simp_all add: sample_loads_def sample_texts_not_deep)
     (simp_all add: sample_documents_def text_array_def text_wrapped_def
        text_wrapped_empty_def text_second_field_def text_no_list_def)

lemma sample_loads_deep:
  "sample_loads text_deep =
     Inl (RecursionError
            ''maximum recursion depth exceeded while decoding a JSON array from a unicode string'')"
  by (simp add: sample_loads_def)

lemma sample_env_simps:
  "configure (sample_env t) api_key = None"
  "generative_model (sample_env t) = None"
  "response_text (sample_env t) context num_questions = Inr t"
  "loads (sample_env t) = sample_loads"
  by (simp_all add: sample_env_def)

lemma sample_mcq_fields:
  "py_getitem sample_mcq ''question'' = Inr (PyStr ''Q1'')"
  "py_get sample_mcq ''options'' (PyList []) =
     Inr (PyList [PyStr ''A'', PyStr ''B'', PyStr ''C'', PyStr ''D''])"
  "py_getitem sample_mcq ''answer'' = Inr (PyStr ''B'')"
  by (simp_all add: sample_mcq_def)

section \<open>The response normalizer\<close>

text \<open>
  C1: when the response text decodes to a list, the normalizer returns that list as it
  is and makes no call on \<^verbatim>\<open>st\<close>; nothing is required of the items \<open>xs\<close>.  The text is
  not empty: no JSON document is, and the code tests for the empty text before it decodes.
\<close>

theorem list_returned_unchanged:
  assumes "json_string \<noteq> []" and "json_loads json_string = Inr (PyList xs)"
  shows "normalize_response json_loads json_string = ([], PyList xs)"
  using assms by (simp add: normalize_response_decoded)

theorem list_returned_unchanged_witness:
  "text_array \<noteq> [] \<and> sample_loads text_array = Inr (PyList [sample_mcq])
   \<and> normalize_response sample_loads text_array = ([], PyList [sample_mcq])"
  using list_returned_unchanged [of text_array sample_loads "[sample_mcq]"]
  by (simp add: sample_texts_nonempty sample_loads_simps)

text \<open>
  C2: when the response text decodes to a dict with at least one field whose value is a
  list, the normalizer returns the value of the first such field in the iteration order of
  the dict: the fields before it hold no list.
\<close>

theorem first_list_field_returned:
  assumes "json_string \<noteq> []" and "json_loads json_string = Inr (PyDict kvs)"
    and "\<exists>kv \<in> set kvs. isinstance_list (snd kv)"
  shows "\<exists>pre key xs post.
           kvs = pre @ (key, PyList xs) # post
           \<and> (\<forall>kv \<in> set pre. \<not> isinstance_list (snd kv))
           \<and> normalize_response json_loads json_string = ([], PyList xs)"
proof -
  from split_list_first_prop [OF assms(3)]
  obtain pre kv post where split: "kvs = pre @ kv # post"
    and is_list: "isinstance_list (snd kv)"
    and first: "\<forall>kv' \<in> set pre. \<not> isinstance_list (snd kv')"
    by blast
  from is_list obtain xs where xs: "snd kv = PyList xs"
    by (auto simp: isinstance_list_iff)
  then have kv: "kv = (fst kv, PyList xs)" by (cases kv) simp
  from first have "find_list (pre @ (fst kv, PyList xs) # post) = Some (PyList xs)"
    by (simp add: find_list_first)
  with assms(1,2) split kv
  have "normalize_response json_loads json_string = ([], PyList xs)"
    by (simp add: normalize_response_decoded)
  with split kv first show ?thesis by blast
qed

theorem first_list_field_returned_witness:
  "text_second_field \<noteq> []
   \<and> sample_loads text_second_field =
       Inr (PyDict [(''count'', PyInt 1), (''items'', PyList [PyInt 7, PyStr ''x'']),
                    (''more'', PyList [])])
   \<and> (\<exists>kv \<in> set [(''count'', PyInt 1), (''items'', PyList [PyInt 7, PyStr ''x'']),
                   (''more'', PyList [])]. isinstance_list (snd kv))
   \<and> normalize_response sample_loads text_second_field = ([], PyList [PyInt 7, PyStr ''x''])"
  using first_list_field_returned [of text_second_field sample_loads
          "[(''count'', PyInt 1), (''items'', PyList [PyInt 7, PyStr ''x'']), (''more'', PyList [])]"]
  by (simp add: sample_texts_nonempty sample_loads_simps normalize_response_decoded)

text \<open>
  C3: the normalizer reports the unexpected shape (the message of lines 100 and 104, and
  \<^verbatim>\<open>None\<close> returned) exactly when the text is decoded and the value is a dict none of whose
  fields holds a list, or is neither a list nor a dict.
\<close>

theorem unexpected_shape_iff:
  "normalize_response json_loads json_string = ([unexpected_shape_error], PyNone) \<longleftrightarrow>
     json_string \<noteq> [] \<and>
     (\<exists>v. json_loads json_string = Inr v \<and>
          ((\<exists>kvs. v = PyDict kvs \<and> (\<forall>kv \<in> set kvs. \<not> isinstance_list (snd kv)))
           \<or> (\<not> isinstance_list v \<and> \<not> isinstance_dict v)))"
proof (cases "json_string = []")
  case True
  then show ?thesis by (simp add: normalize_response_def unexpected_shape_error_def)
next
  case ne: False
  show ?thesis
  proof (cases "json_loads json_string")
    case (Inl e)
    with ne show ?thesis
      by (cases e) (simp_all add: normalize_response_def unexpected_shape_error_def)
  next
    case (Inr v)
    with ne show ?thesis
      by (cases v)
         (auto simp: normalize_response_decoded find_list_None_iff unexpected_shape_error_def
               dest: find_list_Some_ex split: option.splits)
  qed
qed

theorem unexpected_shape_iff_witness:
  "normalize_response sample_loads text_no_list = ([unexpected_shape_error], PyNone)
   \<and> normalize_response sample_loads ''42'' = ([unexpected_shape_error], PyNone)
   \<and> normalize_response sample_loads text_wrapped \<noteq> ([unexpected_shape_error], PyNone)
   \<and> normalize_response sample_loads ''not json'' \<noteq> ([unexpected_shape_error], PyNone)
   \<and> normalize_response sample_loads [] \<noteq> ([unexpected_shape_error], PyNone)"
  using unexpected_shape_iff [of sample_loads text_no_list]
        unexpected_shape_iff [of sample_loads "''42''"]
        unexpected_shape_iff [of sample_loads text_wrapped]
        unexpected_shape_iff [of sample_loads "''not json''"]
        unexpected_shape_iff [of sample_loads "[]"]
  by (simp add: sample_texts_nonempty sample_loads_simps)

text \<open>
  C4: for the empty response text the normalizer reports the empty response and returns
  \<^verbatim>\<open>None\<close>, whatever the decoder would do with the text: it is not called.
\<close>

theorem empty_response_fails:
  "normalize_response json_loads [] =
     ([St_error [Lit ''API returned a successful but empty response.'']], PyNone)"
  by (simp add: normalize_response_def)

text \<open>
  C5, as the code has it: for a non-empty response text on which the decoder raises
  \<^verbatim>\<open>JSONDecodeError\<close>, the normalizer reports the decoding failure, quoting the text, and
  returns \<^verbatim>\<open>None\<close>; when the decoder raises any other exception, the handler of line 112
  reports that exception instead, and \<^verbatim>\<open>None\<close> is returned as well.
\<close>

theorem decode_failure_reported:
  "(json_string \<noteq> [] \<and> json_loads json_string = Inl (JSONDecodeError m) \<longrightarrow>
      normalize_response json_loads json_string =
        ([St_error [Lit ''Failed to decode the API's JSON response. The model might not be following the schema. Response text: '',
                    Fmt (PyStr json_string)]], PyNone))
   \<and> (json_string \<noteq> [] \<and> json_loads json_string = Inl e \<and> (\<forall>m'. e \<noteq> JSONDecodeError m') \<longrightarrow>
      normalize_response json_loads json_string =
        ([St_error [Lit ''An unexpected error occurred while calling the Gemini API: '', FmtExn e]],
         PyNone))"
proof (intro conjI impI)
  assume "json_string \<noteq> [] \<and> json_loads json_string = Inl (JSONDecodeError m)"
  then show "normalize_response json_loads json_string =
        ([St_error [Lit ''Failed to decode the API's JSON response. The model might not be following the schema. Response text: '',
                    Fmt (PyStr json_string)]], PyNone)"
    by (simp add: normalize_response_def)
next
  assume "json_string \<noteq> [] \<and> json_loads json_string = Inl e \<and> (\<forall>m'. e \<noteq> JSONDecodeError m')"
  then show "normalize_response json_loads json_string =
        ([St_error [Lit ''An unexpected error occurred while calling the Gemini API: '', FmtExn e]],
         PyNone)"
    by (cases e) (simp_all add: normalize_response_def)
qed

theorem decode_failure_reported_witness:
  "''not json'' \<noteq> [] \<and> sample_loads ''not json'' = Inl (JSONDecodeError ''Expecting value'')
   \<and> normalize_response sample_loads ''not json'' =
       ([St_error [Lit ''Failed to decode the API's JSON response. The model might not be following the schema. Response text: '',
                   Fmt (PyStr ''not json'')]], PyNone)
   \<and> text_deep \<noteq> []
   \<and> sample_loads text_deep =
       Inl (RecursionError
              ''maximum recursion depth exceeded while decoding a JSON array from a unicode string'')
   \<and> normalize_response sample_loads text_deep =
       ([St_error [Lit ''An unexpected error occurred while calling the Gemini API: '',
                   FmtExn (RecursionError
                     ''maximum recursion depth exceeded while decoding a JSON array from a unicode string'')]],
        PyNone)"
  using decode_failure_reported [of "''not json''" sample_loads "''Expecting value''"]
        decode_failure_reported [where json_string = text_deep and json_loads = sample_loads
          and e = "RecursionError
              ''maximum recursion depth exceeded while decoding a JSON array from a unicode string''"]
  by (simp add: sample_loads_simps sample_loads_deep sample_texts_nonempty)

text \<open>
  A text that the decoder does not decode, and for which the report is not the one of line
  110: on a thousand opening brackets the decoder raises \<^verbatim>\<open>RecursionError\<close>, which the
  handler of line 112 catches.
\<close>

theorem deep_nesting_not_malformed_counterexample:
  "text_deep \<noteq> []
   \<and> sample_loads text_deep =
       Inl (RecursionError
              ''maximum recursion depth exceeded while decoding a JSON array from a unicode string'')
   \<and> normalize_response sample_loads text_deep =
       ([St_error [Lit ''An unexpected error occurred while calling the Gemini API: '',
                   FmtExn (RecursionError
                     ''maximum recursion depth exceeded while decoding a JSON array from a unicode string'')]],
        PyNone)
   \<and> normalize_response sample_loads text_deep \<noteq>
       ([St_error [Lit ''Failed to decode the API's JSON response. The model might not be following the schema. Response text: '',
                   Fmt (PyStr text_deep)]], PyNone)"
  by (simp add: normalize_response_def sample_loads_deep sample_texts_nonempty)

section \<open>The render loop\<close>

text \<open>
  C6: for a stored batch that is not empty the right column runs the loop over it, and the
  output for a batch is the concatenation of the outputs for its records, each taken with
  its index, so no record ends the loop.  A record for which the test of line
  176 does not find 4 options is skipped with one report: the output for it is a warning or
  an error, after the question at most, and no options widget or answer.  When the question
  and the length of the options can be read and the length is not 4, the report is the
  warning of line 177.  A record with a question, 4 options and an answer is shown in full.
\<close>

theorem bad_option_count_skipped:
  "(batch \<noteq> [] \<longrightarrow>
      col2 (Some (PyList batch)) = (St_subheader ''Generated MCQs'' # render_loop 0 batch, None))
   \<and> render_loop 0 batch = concat (map (\<lambda>(i, mcq). render_mcq i mcq) (enumerate 0 batch))
   \<and> (\<forall>i < length batch. \<not> four_options (batch ! i) \<longrightarrow>
         (\<exists>rep. is_report rep \<and>
            (render_mcq i (batch ! i) = [rep]
             \<or> (\<exists>title. render_mcq i (batch ! i) = [St_write title, rep]))))
   \<and> (\<forall>i < length batch. \<forall>question options_list n.
         py_getitem (batch ! i) ''question'' = Inr question
         \<and> py_get (batch ! i) ''options'' (PyList []) = Inr options_list
         \<and> py_len options_list = Inr n \<and> n \<noteq> 4 \<longrightarrow>
         render_mcq i (batch ! i) =
           [St_write [Lit ''**Q'', Fmt (PyInt (int i + 1)), Lit '': '', Fmt question, Lit ''**''],
            St_warning [Lit ''Q'', Fmt (PyInt (int i + 1)),
                        Lit '' did not return 4 options. Skipping.'']])
   \<and> (\<forall>i < length batch. \<forall>question options_list answer.
         py_getitem (batch ! i) ''question'' = Inr question
         \<and> py_get (batch ! i) ''options'' (PyList []) = Inr options_list
         \<and> py_len options_list = Inr 4
         \<and> py_getitem (batch ! i) ''answer'' = Inr answer \<longrightarrow>
         render_mcq i (batch ! i) =
           [St_write [Lit ''**Q'', Fmt (PyInt (int i + 1)), Lit '': '', Fmt question, Lit ''**''],
            St_radio ''Options'' options_list [Lit ''mcq_'', Fmt (PyInt (int i))] ''collapsed'' True,
            St_expander ''Show Answer'',
            St_success [Lit ''Correct Answer: '', Fmt answer],
            St_divider])"
  using col2_batch [of batch] render_loop_concat [of 0 batch]
    render_mcq_not_four render_mcq_warning render_mcq_full
  by blast

theorem bad_option_count_skipped_witness:
  "(1::nat) < length [sample_mcq, three_options_mcq, sample_mcq]
   \<and> \<not> four_options ([sample_mcq, three_options_mcq, sample_mcq] ! 1)
   \<and> col2 (Some (PyList [sample_mcq, three_options_mcq, sample_mcq])) =
       (St_subheader ''Generated MCQs'' # render_loop 0 [sample_mcq, three_options_mcq, sample_mcq],
        None)
   \<and> render_loop 0 [sample_mcq, three_options_mcq, sample_mcq] =
       [St_write [Lit ''**Q'', Fmt (PyInt 1), Lit '': '', Fmt (PyStr ''Q1''), Lit ''**''],
        St_radio ''Options'' (PyList [PyStr ''A'', PyStr ''B'', PyStr ''C'', PyStr ''D''])
          [Lit ''mcq_'', Fmt (PyInt 0)] ''collapsed'' True,
        St_expander ''Show Answer'',
        St_success [Lit ''Correct Answer: '', Fmt (PyStr ''B'')],
        St_divider,
        St_write [Lit ''**Q'', Fmt (PyInt 2), Lit '': '', Fmt (PyStr ''Q2''), Lit ''**''],
        St_warning [Lit ''Q'', Fmt (PyInt 2), Lit '' did not return 4 options. Skipping.''],
        St_write [Lit ''**Q'', Fmt (PyInt 3), Lit '': '', Fmt (PyStr ''Q1''), Lit ''**''],
        St_radio ''Options'' (PyList [PyStr ''A'', PyStr ''B'', PyStr ''C'', PyStr ''D''])
          [Lit ''mcq_'', Fmt (PyInt 2)] ''collapsed'' True,
        St_expander ''Show Answer'',
        St_success [Lit ''Correct Answer: '', Fmt (PyStr ''B'')],
        St_divider]"
proof -
  let ?batch = "[sample_mcq, three_options_mcq, sample_mcq]"
  let ?opts = "PyList [PyStr ''A'', PyStr ''B'', PyStr ''C'', PyStr ''D'']"
  note claim = bad_option_count_skipped [of ?batch]
  have bad: "\<not> four_options (?batch ! 1)"
    by (simp add: four_options_def three_options_mcq_def)
  from claim have column:
    "col2 (Some (PyList ?batch)) = (St_subheader ''Generated MCQs'' # render_loop 0 ?batch, None)"
    by simp
  from claim have shape:
    "render_loop 0 ?batch = concat (map (\<lambda>(i, mcq). render_mcq i mcq) (enumerate 0 ?batch))"
    by (elim conjE)
  from claim have warn: "\<forall>i < length ?batch. \<forall>question options_list n.
         py_getitem (?batch ! i) ''question'' = Inr question
         \<and> py_get (?batch ! i) ''options'' (PyList []) = Inr options_list
         \<and> py_len options_list = Inr n \<and> n \<noteq> 4 \<longrightarrow>
         render_mcq i (?batch ! i) =
           [St_write [Lit ''**Q'', Fmt (PyInt (int i + 1)), Lit '': '', Fmt question, Lit ''**''],
            St_warning [Lit ''Q'', Fmt (PyInt (int i + 1)),
                        Lit '' did not return 4 options. Skipping.'']]"
    by (elim conjE)
  from claim have full: "\<forall>i < length ?batch. \<forall>question options_list answer.
         py_getitem (?batch ! i) ''question'' = Inr question
         \<and> py_get (?batch ! i) ''options'' (PyList []) = Inr options_list
         \<and> py_len options_list = Inr 4
         \<and> py_getitem (?batch ! i) ''answer'' = Inr answer \<longrightarrow>
         render_mcq i (?batch ! i) =
           [St_write [Lit ''**Q'', Fmt (PyInt (int i + 1)), Lit '': '', Fmt question, Lit ''**''],
            St_radio ''Options'' options_list [Lit ''mcq_'', Fmt (PyInt (int i))] ''collapsed'' True,
            St_expander ''Show Answer'',
            St_success [Lit ''Correct Answer: '', Fmt answer],
            St_divider]"
    by (elim conjE)
  have r0: "render_mcq 0 sample_mcq =
           [St_write [Lit ''**Q'', Fmt (PyInt 1), Lit '': '', Fmt (PyStr ''Q1''), Lit ''**''],
            St_radio ''Options'' ?opts [Lit ''mcq_'', Fmt (PyInt 0)] ''collapsed'' True,
            St_expander ''Show Answer'',
            St_success [Lit ''Correct Answer: '', Fmt (PyStr ''B'')],
            St_divider]"
    using full [rule_format, of 0 "PyStr ''Q1''" ?opts "PyStr ''B''"]
    by (simp add: sample_mcq_fields)
  have r1: "render_mcq 1 three_options_mcq =
           [St_write [Lit ''**Q'', Fmt (PyInt 2), Lit '': '', Fmt (PyStr ''Q2''), Lit ''**''],
            St_warning [Lit ''Q'', Fmt (PyInt 2), Lit '' did not return 4 options. Skipping.'']]"
    using warn [rule_format, of 1 "PyStr ''Q2''" "PyList [PyStr ''A'', PyStr ''B'', PyStr ''C'']" 3]
    by (simp add: three_options_mcq_def)
  have r2: "render_mcq 2 sample_mcq =
           [St_write [Lit ''**Q'', Fmt (PyInt 3), Lit '': '', Fmt (PyStr ''Q1''), Lit ''**''],
            St_radio ''Options'' ?opts [Lit ''mcq_'', Fmt (PyInt 2)] ''collapsed'' True,
            St_expander ''Show Answer'',
            St_success [Lit ''Correct Answer: '', Fmt (PyStr ''B'')],
            St_divider]"
    using full [rule_format, of 2 "PyStr ''Q1''" ?opts "PyStr ''B''"]
    by (simp add: sample_mcq_fields)
  from shape have "render_loop 0 ?batch =
      render_mcq 0 sample_mcq @ render_mcq 1 three_options_mcq @ render_mcq 2 sample_mcq"
    by (simp add: numeral_2_eq_2 del: render_loop.simps)
  with r0 r1 r2 bad column show ?thesis by simp
qed

text \<open>
  C7, as the code has it: a record missing its \<^verbatim>\<open>question\<close> or \<^verbatim>\<open>answer\<close> key gives one
  error report, after the question, the options widget and the expander at most, unless it
  reaches the warning of line 177: then the output is the question and that warning, and
  no error report.  For a dict without \<^verbatim>\<open>question\<close>, and for a dict with a question and 4
  options but without \<^verbatim>\<open>answer\<close>, the report is the one of line 196 for that key.  In
  every case the loop goes on with the records that follow.
\<close>

theorem missing_key_reported:
  "((missing_key mcq ''question'' \<or> missing_key mcq ''answer'') \<and> \<not> option_count_warned mcq \<longrightarrow>
      (\<exists>out msg. render_mcq (length pre) mcq = out @ [St_error msg]
                 \<and> (\<forall>c \<in> set out. \<not> is_report c)))
   \<and> (option_count_warned mcq \<longrightarrow>
      (\<exists>question. py_getitem mcq ''question'' = Inr question
         \<and> render_mcq (length pre) mcq =
             [St_write [Lit ''**Q'', Fmt (PyInt (int (length pre) + 1)), Lit '': '', Fmt question,
                        Lit ''**''],
              St_warning [Lit ''Q'', Fmt (PyInt (int (length pre) + 1)),
                          Lit '' did not return 4 options. Skipping.'']]))
   \<and> (mcq = PyDict kvs \<and> ''question'' \<notin> fst ` set kvs \<longrightarrow>
      render_mcq (length pre) mcq =
        [St_error [Lit ''Error displaying MCQ '', Fmt (PyInt (int (length pre) + 1)),
                   Lit '': Missing expected key '', FmtExn (KeyError ''question''),
                   Lit ''. Data: '', Fmt mcq]])
   \<and> (mcq = PyDict kvs \<and> map_of kvs ''question'' = Some question
       \<and> py_get mcq ''options'' (PyList []) = Inr options_list \<and> py_len options_list = Inr 4
       \<and> ''answer'' \<notin> fst ` set kvs \<longrightarrow>
      render_mcq (length pre) mcq =
        [St_write [Lit ''**Q'', Fmt (PyInt (int (length pre) + 1)), Lit '': '', Fmt question,
                   Lit ''**''],
         St_radio ''Options'' options_list [Lit ''mcq_'', Fmt (PyInt (int (length pre)))]
           ''collapsed'' True,
         St_expander ''Show Answer'',
         St_error [Lit ''Error displaying MCQ '', Fmt (PyInt (int (length pre) + 1)),
                   Lit '': Missing expected key '', FmtExn (KeyError ''answer''),
                   Lit ''. Data: '', Fmt mcq]])
   \<and> render_loop 0 (pre @ mcq # post) =
       render_loop 0 pre @ render_mcq (length pre) mcq @ render_loop (Suc (length pre)) post"
proof (intro conjI impI)
  assume a: "(missing_key mcq ''question'' \<or> missing_key mcq ''answer'') \<and> \<not> option_count_warned mcq"
  show "\<exists>out msg. render_mcq (length pre) mcq = out @ [St_error msg]
                 \<and> (\<forall>c \<in> set out. \<not> is_report c)"
  proof (cases "py_getitem mcq ''question''")
    case (Inl e)
    from render_mcq_no_question [OF this] obtain msg
      where "render_mcq (length pre) mcq = [] @ [St_error msg]" by auto
    then show ?thesis by (intro exI [of _ "[]"] exI [of _ msg]) simp
  next
    case q: (Inr question)
    from py_get_defined [OF q] obtain options_list
      where opts: "py_get mcq ''options'' (PyList []) = Inr options_list" by blast
    show ?thesis
    proof (cases "py_len options_list")
      case (Inl e)
      from render_mcq_unreadable [OF q opts Inl] obtain title msg
        where "render_mcq (length pre) mcq = [St_write title] @ [St_error msg]" by blast
      then show ?thesis
        by (intro exI [of _ "[St_write title]"] exI [of _ msg]) simp
    next
      case (Inr n)
      with a q opts have len: "py_len options_list = Inr 4"
        by (simp add: option_count_warned_def)
      from a q obtain e where "py_getitem mcq ''answer'' = Inl e"
        by (auto simp: missing_key_def split: sum.splits)
      from render_mcq_no_answer_report [OF q opts len this] obtain title key msg
        where "render_mcq (length pre) mcq =
                 [St_write title, St_radio ''Options'' options_list key ''collapsed'' True,
                  St_expander ''Show Answer''] @ [St_error msg]" by blast
      then show ?thesis
        by (intro exI [of _ "[St_write title, St_radio ''Options'' options_list key ''collapsed'' True,
                  St_expander ''Show Answer'']"] exI [of _ msg]) simp
    qed
  qed
next
  assume "option_count_warned mcq"
  then obtain question options_list n where "py_getitem mcq ''question'' = Inr question"
    and "py_get mcq ''options'' (PyList []) = Inr options_list"
    and "py_len options_list = Inr n" and "n \<noteq> 4"
    by (auto simp: option_count_warned_def split: sum.splits)
  with render_mcq_warning [of mcq question options_list n "length pre"]
  show "\<exists>question. py_getitem mcq ''question'' = Inr question
         \<and> render_mcq (length pre) mcq =
             [St_write [Lit ''**Q'', Fmt (PyInt (int (length pre) + 1)), Lit '': '', Fmt question,
                        Lit ''**''],
              St_warning [Lit ''Q'', Fmt (PyInt (int (length pre) + 1)),
                          Lit '' did not return 4 options. Skipping.'']]"
    by blast
next
  assume "mcq = PyDict kvs \<and> ''question'' \<notin> fst ` set kvs"
  with py_getitem_missing [of "''question''" kvs]
  have "py_getitem mcq ''question'' = Inl (KeyError ''question'')"
    by blast
  then show "render_mcq (length pre) mcq =
        [St_error [Lit ''Error displaying MCQ '', Fmt (PyInt (int (length pre) + 1)),
                   Lit '': Missing expected key '', FmtExn (KeyError ''question''),
                   Lit ''. Data: '', Fmt mcq]]"
    by (simp add: render_mcq_def render_body_def)
next
  assume a: "mcq = PyDict kvs \<and> map_of kvs ''question'' = Some question
       \<and> py_get mcq ''options'' (PyList []) = Inr options_list \<and> py_len options_list = Inr 4
       \<and> ''answer'' \<notin> fst ` set kvs"
  then have q: "py_getitem mcq ''question'' = Inr question" by auto
  from a py_getitem_missing [of "''answer''" kvs]
  have ans: "py_getitem mcq ''answer'' = Inl (KeyError ''answer'')"
    by blast
  from a have opts: "py_get mcq ''options'' (PyList []) = Inr options_list"
    and len: "py_len options_list = Inr 4" by blast+
  from render_mcq_no_answer [OF q opts len ans]
  show "render_mcq (length pre) mcq =
        [St_write [Lit ''**Q'', Fmt (PyInt (int (length pre) + 1)), Lit '': '', Fmt question,
                   Lit ''**''],
         St_radio ''Options'' options_list [Lit ''mcq_'', Fmt (PyInt (int (length pre)))]
           ''collapsed'' True,
         St_expander ''Show Answer'',
         St_error [Lit ''Error displaying MCQ '', Fmt (PyInt (int (length pre) + 1)),
                   Lit '': Missing expected key '', FmtExn (KeyError ''answer''),
                   Lit ''. Data: '', Fmt mcq]]" .
next
  show "render_loop 0 (pre @ mcq # post) =
       render_loop 0 pre @ render_mcq (length pre) mcq @ render_loop (Suc (length pre)) post"
    using render_loop_split [of 0 pre mcq post] by simp
qed

text \<open>
  A record with a question and three options but without the key \<^verbatim>\<open>answer\<close>: the
  \<^verbatim>\<open>continue\<close> of line 178 comes before the answer is read, so the output is the question
  and the warning about the options, and no error report.
\<close>

theorem missing_answer_not_reported_counterexample:
  "py_getitem no_answer_three_options_mcq ''answer'' = Inl (KeyError ''answer'')
   \<and> render_mcq 0 no_answer_three_options_mcq =
       [St_write [Lit ''**Q'', Fmt (PyInt 1), Lit '': '', Fmt (PyStr ''Q4''), Lit ''**''],
        St_warning [Lit ''Q'', Fmt (PyInt 1), Lit '' did not return 4 options. Skipping.'']]"
  by (simp add: no_answer_three_options_mcq_def render_mcq_def render_body_def)

theorem missing_key_reported_witness:
  "missing_key no_question_mcq ''question'' \<and> \<not> option_count_warned no_question_mcq
   \<and> missing_key no_answer_mcq ''answer'' \<and> \<not> option_count_warned no_answer_mcq
   \<and> missing_key null_options_mcq ''answer'' \<and> \<not> option_count_warned null_options_mcq
   \<and> missing_key (PyStr ''Q6'') ''question'' \<and> \<not> option_count_warned (PyStr ''Q6'')
   \<and> missing_key no_answer_three_options_mcq ''answer''
   \<and> option_count_warned no_answer_three_options_mcq
   \<and> render_loop 0 [no_question_mcq, no_answer_mcq, null_options_mcq, PyStr ''Q6'',
                     no_answer_three_options_mcq, sample_mcq] =
       [St_error [Lit ''Error displaying MCQ '', Fmt (PyInt 1),
                  Lit '': Missing expected key '', FmtExn (KeyError ''question''),
                  Lit ''. Data: '', Fmt no_question_mcq],
        St_write [Lit ''**Q'', Fmt (PyInt 2), Lit '': '', Fmt (PyStr ''Q3''), Lit ''**''],
        St_radio ''Options'' (PyList [PyStr ''A'', PyStr ''B'', PyStr ''C'', PyStr ''D''])
          [Lit ''mcq_'', Fmt (PyInt 1)] ''collapsed'' True,
        St_expander ''Show Answer'',
        St_error [Lit ''Error displaying MCQ '', Fmt (PyInt 2),
                  Lit '': Missing expected key '', FmtExn (KeyError ''answer''),
                  Lit ''. Data: '', Fmt no_answer_mcq],
        St_write [Lit ''**Q'', Fmt (PyInt 3), Lit '': '', Fmt (PyStr ''Q5''), Lit ''**''],
        St_error [Lit ''An unknown error occurred while displaying MCQ '', Fmt (PyInt 3),
                  Lit '': '', FmtExn TypeError],
        St_error [Lit ''An unknown error occurred while displaying MCQ '', Fmt (PyInt 4),
                  Lit '': '', FmtExn TypeError],
        St_write [Lit ''**Q'', Fmt (PyInt 5), Lit '': '', Fmt (PyStr ''Q4''), Lit ''**''],
        St_warning [Lit ''Q'', Fmt (PyInt 5), Lit '' did not return 4 options. Skipping.''],
        St_write [Lit ''**Q'', Fmt (PyInt 6), Lit '': '', Fmt (PyStr ''Q1''), Lit ''**''],
        St_radio ''Options'' (PyList [PyStr ''A'', PyStr ''B'', PyStr ''C'', PyStr ''D''])
          [Lit ''mcq_'', Fmt (PyInt 5)] ''collapsed'' True,
        St_expander ''Show Answer'',
        St_success [Lit ''Correct Answer: '', Fmt (PyStr ''B'')],
        St_divider]"
proof -
  let ?opts = "PyList [PyStr ''A'', PyStr ''B'', PyStr ''C'', PyStr ''D'']"
  let ?kvs1 = "[(''options'', ?opts), (''answer'', PyStr ''D'')]"
  let ?kvs2 = "[(''question'', PyStr ''Q3''), (''options'', ?opts)]"
  let ?tail4 = "[no_answer_three_options_mcq, sample_mcq]"
  let ?tail3 = "PyStr ''Q6'' # ?tail4"
  let ?tail2 = "null_options_mcq # ?tail3"
  let ?tail1 = "no_answer_mcq # ?tail2"
  have hyps: "missing_key no_question_mcq ''question''" "\<not> option_count_warned no_question_mcq"
    "missing_key no_answer_mcq ''answer''" "\<not> option_count_warned no_answer_mcq"
    "missing_key null_options_mcq ''answer''" "\<not> option_count_warned null_options_mcq"
    "missing_key (PyStr ''Q6'') ''question''" "\<not> option_count_warned (PyStr ''Q6'')"
    "missing_key no_answer_three_options_mcq ''answer''"
    "option_count_warned no_answer_three_options_mcq"
    by (simp_all add: missing_key_def option_count_warned_def no_question_mcq_def
          no_answer_mcq_def null_options_mcq_def no_answer_three_options_mcq_def)
  have k1: "''question'' \<notin> fst ` set ?kvs1" and k2: "''answer'' \<notin> fst ` set ?kvs2"
    by simp_all
  note at0 = missing_key_reported [where mcq = no_question_mcq and kvs = ?kvs1
               and pre = "[]" and post = ?tail1]
  note at1 = missing_key_reported [where mcq = no_answer_mcq and kvs = ?kvs2
               and pre = "[no_question_mcq]" and question = "PyStr ''Q3''"
               and options_list = ?opts and post = ?tail2]
  note at2 = missing_key_reported [where mcq = null_options_mcq
               and pre = "[no_question_mcq, no_answer_mcq]" and post = ?tail3]
  note at3 = missing_key_reported [where mcq = "PyStr ''Q6''"
               and pre = "[no_question_mcq, no_answer_mcq, null_options_mcq]" and post = ?tail4]
  note at4 = missing_key_reported [where mcq = no_answer_three_options_mcq
               and pre = "[no_question_mcq, no_answer_mcq, null_options_mcq, PyStr ''Q6'']"
               and post = "[sample_mcq]"]
  from at0 k1 have r0: "render_mcq 0 no_question_mcq =
       [St_error [Lit ''Error displaying MCQ '', Fmt (PyInt 1),
                  Lit '': Missing expected key '', FmtExn (KeyError ''question''),
                  Lit ''. Data: '', Fmt no_question_mcq]]"
    by (simp add: no_question_mcq_def)
  from at1 k2 have r1: "render_mcq 1 no_answer_mcq =
       [St_write [Lit ''**Q'', Fmt (PyInt 2), Lit '': '', Fmt (PyStr ''Q3''), Lit ''**''],
        St_radio ''Options'' ?opts [Lit ''mcq_'', Fmt (PyInt 1)] ''collapsed'' True,
        St_expander ''Show Answer'',
        St_error [Lit ''Error displaying MCQ '', Fmt (PyInt 2),
                  Lit '': Missing expected key '', FmtExn (KeyError ''answer''),
                  Lit ''. Data: '', Fmt no_answer_mcq]]"
    by (simp add: no_answer_mcq_def)
  from at2 hyps(5,6)
  have e2: "\<exists>out msg. render_mcq (length [no_question_mcq, no_answer_mcq]) null_options_mcq =
                        out @ [St_error msg]"
    by blast
  from at3 hyps(7,8)
  have e3: "\<exists>out msg. render_mcq (length [no_question_mcq, no_answer_mcq, null_options_mcq])
                        (PyStr ''Q6'') = out @ [St_error msg]"
    by blast
  from at4 hyps(10)
  have w4: "\<exists>question. py_getitem no_answer_three_options_mcq ''question'' = Inr question
         \<and> render_mcq (length [no_question_mcq, no_answer_mcq, null_options_mcq, PyStr ''Q6''])
             no_answer_three_options_mcq =
             [St_write [Lit ''**Q'',
                        Fmt (PyInt (int (length [no_question_mcq, no_answer_mcq, null_options_mcq,
                                                 PyStr ''Q6'']) + 1)),
                        Lit '': '', Fmt question, Lit ''**''],
              St_warning [Lit ''Q'',
                          Fmt (PyInt (int (length [no_question_mcq, no_answer_mcq, null_options_mcq,
                                                   PyStr ''Q6'']) + 1)),
                          Lit '' did not return 4 options. Skipping.'']]"
    by blast
  from at4
  have loop: "render_loop 0 ([no_question_mcq, no_answer_mcq, null_options_mcq, PyStr ''Q6'']
                             @ no_answer_three_options_mcq # [sample_mcq]) =
       render_loop 0 [no_question_mcq, no_answer_mcq, null_options_mcq, PyStr ''Q6'']
       @ render_mcq (length [no_question_mcq, no_answer_mcq, null_options_mcq, PyStr ''Q6''])
           no_answer_three_options_mcq
       @ render_loop (Suc (length [no_question_mcq, no_answer_mcq, null_options_mcq, PyStr ''Q6'']))
           [sample_mcq]"
    by blast
  have rest: "render_loop (Suc (Suc 0)) [null_options_mcq, PyStr ''Q6'', no_answer_three_options_mcq,
                                         sample_mcq] =
       [St_write [Lit ''**Q'', Fmt (PyInt 3), Lit '': '', Fmt (PyStr ''Q5''), Lit ''**''],
        St_error [Lit ''An unknown error occurred while displaying MCQ '', Fmt (PyInt 3),
                  Lit '': '', FmtExn TypeError],
        St_error [Lit ''An unknown error occurred while displaying MCQ '', Fmt (PyInt 4),
                  Lit '': '', FmtExn TypeError],
        St_write [Lit ''**Q'', Fmt (PyInt 5), Lit '': '', Fmt (PyStr ''Q4''), Lit ''**''],
        St_warning [Lit ''Q'', Fmt (PyInt 5), Lit '' did not return 4 options. Skipping.''],
        St_write [Lit ''**Q'', Fmt (PyInt 6), Lit '': '', Fmt (PyStr ''Q1''), Lit ''**''],
        St_radio ''Options'' ?opts [Lit ''mcq_'', Fmt (PyInt 5)] ''collapsed'' True,
        St_expander ''Show Answer'',
        St_success [Lit ''Correct Answer: '', Fmt (PyStr ''B'')],
        St_divider]"
    by (simp add: render_mcq_def render_body_def null_options_mcq_def
          no_answer_three_options_mcq_def sample_mcq_def)
  from r0 r1 rest e2 e3 w4 loop hyps show ?thesis by simp
qed

section \<open>generate\_mcqs as a whole\<close>

text \<open>
  C8: whenever \<^verbatim>\<open>generate_mcqs\<close> returns \<^verbatim>\<open>None\<close>, it has made exactly one call of
  \<^verbatim>\<open>st.error\<close> on the way.
\<close>

theorem generate_mcqs_never_silent:
  assumes "snd (generate_mcqs ev context num_questions api_key) = Inr PyNone"
  shows "\<exists>msg. fst (generate_mcqs ev context num_questions api_key) = [St_error msg]"
proof (cases "configure ev api_key")
  case (Some e)
  then show ?thesis by (simp add: generate_mcqs_def)
next
  case cfg: None
  show ?thesis
  proof (cases "generative_model ev")
    case (Some e)
    with cfg assms show ?thesis by (simp add: generate_mcqs_def)
  next
    case model: None
    show ?thesis
    proof (cases "response_text ev context num_questions")
      case (Inl e)
      with cfg model assms show ?thesis by (cases e) (simp_all add: generate_mcqs_def)
    next
      case (Inr json_string)
      with cfg model assms show ?thesis
        by (simp add: generate_mcqs_decoded normalize_response_None)
    qed
  qed
qed

theorem generate_mcqs_never_silent_witness:
  "snd (generate_mcqs (sample_env text_no_list) ''Some text.'' 3 ''key'') = Inr PyNone
   \<and> fst (generate_mcqs (sample_env text_no_list) ''Some text.'' 3 ''key'') = [unexpected_shape_error]"
proof -
  have run: "generate_mcqs (sample_env text_no_list) ''Some text.'' 3 ''key'' =
               ([unexpected_shape_error], Inr PyNone)"
    by (simp add: generate_mcqs_decoded [where json_string = text_no_list] sample_env_simps
          normalize_response_decoded sample_texts_nonempty sample_loads_simps)
  then have none: "snd (generate_mcqs (sample_env text_no_list) ''Some text.'' 3 ''key'') = Inr PyNone"
    by simp
  from generate_mcqs_never_silent [OF none] obtain msg where
    "fst (generate_mcqs (sample_env text_no_list) ''Some text.'' 3 ''key'') = [St_error msg]" ..
  with run none show ?thesis by simp
qed

text \<open>
  C9: a value other than \<^verbatim>\<open>None\<close> that \<^verbatim>\<open>generate_mcqs\<close> returns is a list.  When the
  decoded value is a dict, the list returned is the one found in it, whatever it holds: the
  items \<open>ys\<close> are arbitrary, and there may be none.
\<close>

theorem returned_value_is_list:
  "(snd (generate_mcqs ev context num_questions api_key) = Inr v \<and> v \<noteq> PyNone \<longrightarrow>
      (\<exists>xs. v = PyList xs))
   \<and> (configure ev api_key = None \<and> generative_model ev = None
       \<and> response_text ev context num_questions = Inr json_string \<and> json_string \<noteq> []
       \<and> loads ev json_string = Inr (PyDict (pre @ (key, PyList ys) # post))
       \<and> (\<forall>kv \<in> set pre. \<not> isinstance_list (snd kv)) \<longrightarrow>
      generate_mcqs ev context num_questions api_key = ([], Inr (PyList ys)))"
proof (intro conjI impI)
  assume a: "snd (generate_mcqs ev context num_questions api_key) = Inr v \<and> v \<noteq> PyNone"
  show "\<exists>xs. v = PyList xs"
  proof (cases "configure ev api_key")
    case (Some e)
    with a show ?thesis by (auto simp: generate_mcqs_def)
  next
    case cfg: None
    show ?thesis
    proof (cases "generative_model ev")
      case (Some e)
      with cfg a show ?thesis by (auto simp: generate_mcqs_def)
    next
      case model: None
      show ?thesis
      proof (cases "response_text ev context num_questions")
        case (Inl e)
        with cfg model a show ?thesis by (cases e) (auto simp: generate_mcqs_def)
      next
        case (Inr json_string)
        with cfg model a normalize_response_list [of "loads ev" json_string] show ?thesis
          by (auto simp: generate_mcqs_decoded isinstance_list_iff)
      qed
    qed
  qed
next
  assume "configure ev api_key = None \<and> generative_model ev = None
       \<and> response_text ev context num_questions = Inr json_string \<and> json_string \<noteq> []
       \<and> loads ev json_string = Inr (PyDict (pre @ (key, PyList ys) # post))
       \<and> (\<forall>kv \<in> set pre. \<not> isinstance_list (snd kv))"
  then show "generate_mcqs ev context num_questions api_key = ([], Inr (PyList ys))"
    by (simp add: generate_mcqs_decoded normalize_response_decoded find_list_first)
qed

theorem returned_value_is_list_witness:
  "generate_mcqs (sample_env text_wrapped_empty) ''Some text.'' 3 ''key'' = ([], Inr (PyList []))
   \<and> generate_mcqs (sample_env text_second_field) ''Some text.'' 3 ''key'' =
       ([], Inr (PyList [PyInt 7, PyStr ''x'']))
   \<and> (\<exists>xs. PyList [PyInt 7, PyStr ''x''] = PyList xs)"
proof -
  have empty: "generate_mcqs (sample_env text_wrapped_empty) ''Some text.'' 3 ''key'' =
                 ([], Inr (PyList []))"
    using returned_value_is_list [of "sample_env text_wrapped_empty" "''Some text.''" 3 "''key''"
            PyNone text_wrapped_empty "[]" "''questions''" "[]" "[]"]
    by (simp add: sample_env_simps sample_texts_nonempty sample_loads_simps)
  have items: "generate_mcqs (sample_env text_second_field) ''Some text.'' 3 ''key'' =
                 ([], Inr (PyList [PyInt 7, PyStr ''x'']))"
    using returned_value_is_list [of "sample_env text_second_field" "''Some text.''" 3 "''key''"
            PyNone text_second_field "[(''count'', PyInt 1)]" "''items''" "[PyInt 7, PyStr ''x'']"
            "[(''more'', PyList [])]"]
    by (simp add: sample_env_simps sample_texts_nonempty sample_loads_simps)
  from items
  have "\<exists>xs. PyList [PyInt 7, PyStr ''x''] = PyList xs"
    using returned_value_is_list [of "sample_env text_second_field" "''Some text.''" 3 "''key''"
            "PyList [PyInt 7, PyStr ''x'']"]
    by simp
  with empty items show ?thesis by simp
qed

text \<open>
  C10: the response text \<^verbatim>\<open>[]\<close> decodes to the empty list, which the normalizer returns
  without any report; the right column then shows for this stored value what it shows when
  nothing is stored, or when \<^verbatim>\<open>None\<close> is: the hint of line 166.
\<close>

theorem empty_array_renders_idle:
  assumes "json_loads ''[]'' = Inr (PyList [])"
  shows "normalize_response json_loads ''[]'' = ([], PyList [])
         \<and> col2 (Some (PyList [])) = col2 None
         \<and> col2 (Some (PyList [])) = col2 (Some PyNone)
         \<and> col2 (Some (PyList [])) =
             ([St_subheader ''Generated MCQs'',
               St_info [Lit ''Click the 'Generate MCQs' button to see your questions here.'']],
              None)"
  using assms by (simp add: normalize_response_decoded col2_def)

theorem empty_array_renders_idle_witness:
  "sample_loads ''[]'' = Inr (PyList [])
   \<and> normalize_response sample_loads ''[]'' = ([], PyList [])
   \<and> col2 (Some (PyList [])) = col2 None"
  using empty_array_renders_idle [of sample_loads] by (simp add: sample_loads_simps)

end
